theory Spec2Isabelle
  imports
    Main
    "HOL-Library.Sublist"
    "HOL-Library.AList"
    "HOL-Library.Char_ord"
    "HOL-Library.List_Lexorder"
    "HOL-Library.Product_Lexorder"
begin

section \<open>Data model (src/types.ts)\<close>

text \<open>
  Optional and nullable fields of the TypeScript interfaces are \<open>option\<close> values:
  \<open>None\<close> stands for both \<^verbatim>\<open>undefined\<close> and \<^verbatim>\<open>null\<close>, which the code only ever tests
  for truthiness. \<^verbatim>\<open>isSearching?: boolean\<close> is a \<open>bool\<close> whose absent value is
  \<open>False\<close>. Timestamps (\<^verbatim>\<open>Date.now()\<close>, milliseconds) are integers.
  Names that are Isabelle keywords or HOL constants carry a suffix
  (\<open>id_m\<close>, \<open>text_m\<close>, \<open>id_r\<close>, \<open>name_r\<close>).
\<close>

record UserProfile =
  userId :: "string option"
  username :: string
  country :: string
  state :: string

record ReplyTo =
  id_rt :: string
  sender_rt :: string
  text_rt :: string

record Message =
  id_m :: string
  sender :: string
  text_m :: string
  timestamp :: int
  isMe :: bool
  replyTo :: "ReplyTo option"
  readBy :: "string list"
  translation :: "string option"
  roomId :: "string option"

datatype RoomType = WORLD | COUNTRY | STATE | ONE_ON_ONE

record ChatRoom =
  id_r :: RoomType
  name_r :: string
  description :: string
  messages :: "Message list"
  unreadCount :: nat
  muted :: bool
  connectedPartner :: "UserProfile option"
  isSearching :: bool
  sessionId :: "string option"

text \<open>A document of the \<^verbatim>\<open>messages\<close> collection as the listeners read it
  (\<^verbatim>\<open>change.doc.id\<close> and the fields of \<^verbatim>\<open>change.doc.data()\<close>).\<close>

record MessageDoc =
  id_d :: string
  sender_d :: string
  text_d :: string
  timestamp_d :: int
  senderUid_d :: "string option"
  replyTo_d :: "ReplyTo option"
  readBy_d :: "string list option"
  translation_d :: "string option"
  roomId_d :: "string option"

datatype ChangeType = added | modified | removed

record DocChange =
  type_c :: ChangeType
  doc_c :: MessageDoc

text \<open>A browser notification raised by \<^verbatim>\<open>new Notification(title, {body})\<close>.\<close>

record Notification =
  title :: string
  body :: string

section \<open>Client state of the App component (src/App.tsx)\<close>

text \<open>
  The \<^verbatim>\<open>useState\<close> cells of \<^verbatim>\<open>App\<close>. The refs \<^verbatim>\<open>activeRoomRef\<close> and \<^verbatim>\<open>userRef\<close>
  mirror \<open>activeRoom\<close> and \<open>user\<close> (lines 89-92) and are read through these fields.
  \<open>db\<close> says that the module constant \<^verbatim>\<open>db\<close> is not null,
  \<open>notificationGranted\<close> that \<^verbatim>\<open>'Notification' in window\<close> and the permission is
  \<^verbatim>\<open>'granted'\<close>; \<open>notifications\<close> logs the notifications raised so far and
  \<open>console\<close> the lines written by \<^verbatim>\<open>console.error\<close>.
\<close>

record AppState =
  user :: "UserProfile option"
  firebaseUid :: "string option"
  isDemoMode :: bool
  activeRoom :: RoomType
  blockedUsers :: "string list"
  rooms :: "RoomType \<Rightarrow> ChatRoom"
  db :: bool
  notificationGranted :: bool
  notifications :: "Notification list"
  console :: "string list"

text \<open>The initial value of the \<^verbatim>\<open>rooms\<close> cell (lines 50-86).\<close>

definition initialRooms :: "RoomType \<Rightarrow> ChatRoom" where
  "initialRooms t = (case t of
      ONE_ON_ONE \<Rightarrow> \<lparr>id_r = ONE_ON_ONE, name_r = ''One on One'',
        description = ''Connect with a random stranger.'', messages = [], unreadCount = 0,
        muted = False, connectedPartner = None, isSearching = False, sessionId = None\<rparr>
    | WORLD \<Rightarrow> \<lparr>id_r = WORLD, name_r = ''World Chat'',
        description = ''Connect with people from everywhere.'', messages = [], unreadCount = 0,
        muted = False, connectedPartner = None, isSearching = False, sessionId = None\<rparr>
    | COUNTRY \<Rightarrow> \<lparr>id_r = COUNTRY, name_r = ''Country Chat'',
        description = ''Connect with your nation.'', messages = [], unreadCount = 0,
        muted = False, connectedPartner = None, isSearching = False, sessionId = None\<rparr>
    | STATE \<Rightarrow> \<lparr>id_r = STATE, name_r = ''State Chat'',
        description = ''Connect with your neighbors.'', messages = [], unreadCount = 0,
        muted = False, connectedPartner = None, isSearching = False, sessionId = None\<rparr>)"

section \<open>Room feed: the broadcast listener (setupRoomListener, lines 194-249)\<close>

text \<open>\<^verbatim>\<open>String.prototype.includes\<close>: the pattern occurs as a contiguous substring.\<close>

fun includes_str :: "string \<Rightarrow> string \<Rightarrow> bool" where
  "includes_str [] p = (p = [])"
| "includes_str (c # cs) p = (prefix p (c # cs) \<or> includes_str cs p)"

text \<open>The message built from an added document (lines 205-216).\<close>

definition roomMessage :: "string \<Rightarrow> MessageDoc \<Rightarrow> Message" where
  "roomMessage uid data =
     \<lparr>id_m = id_d data, sender = sender_d data, text_m = text_d data,
      timestamp = timestamp_d data, isMe = (senderUid_d data = Some uid),
      replyTo = replyTo_d data,
      readBy = (case readBy_d data of None \<Rightarrow> [] | Some rs \<Rightarrow> rs),
      translation = translation_d data, roomId = roomId_d data\<rparr>"

text \<open>\<^verbatim>\<open>`@${userRef.current?.username}`\<close> (line 227).\<close>

definition mentionText :: "UserProfile option \<Rightarrow> string" where
  "mentionText u = CHR ''@'' # (case u of None \<Rightarrow> ''undefined'' | Some p \<Rightarrow> username p)"

text \<open>
  The \<^verbatim>\<open>setRooms\<close> updater of lines 218-245 together with the notification it may raise:
  a message whose id is already in the room leaves everything as it is.
\<close>

definition roomUpdater :: "RoomType \<Rightarrow> Message \<Rightarrow> AppState \<Rightarrow> AppState" where
  "roomUpdater roomType message s =
     (let prev = rooms s; currentRoom = prev roomType in
      if list_ex (\<lambda>m. id_m m = id_m message) (messages currentRoom) then s
      else
        let isRoomActive = (activeRoom s = roomType);
            isBlocked = (sender message \<in> set (blockedUsers s));
            shouldNotify = (\<not> isRoomActive \<and> \<not> isMe message \<and> \<not> muted currentRoom \<and> \<not> isBlocked);
            raised =
              (if \<not> isMe message \<and> \<not> isBlocked
                  \<and> includes_str (text_m message) (mentionText (user s))
                  \<and> notificationGranted s
               then [\<lparr>title = ''Mentioned in '' @ name_r currentRoom,
                      body = sender message @ '': '' @ text_m message\<rparr>]
               else [])
        in s\<lparr>rooms := prev(roomType := currentRoom\<lparr>
                 messages := messages currentRoom @ [message],
                 unreadCount := (if shouldNotify then unreadCount currentRoom + 1
                                 else unreadCount currentRoom)\<rparr>),
             notifications := notifications s @ raised\<rparr>)"

text \<open>The snapshot callback (lines 202-248): every \<^verbatim>\<open>added\<close> change, in order.\<close>

definition roomSnapshot :: "string \<Rightarrow> RoomType \<Rightarrow> DocChange list \<Rightarrow> AppState \<Rightarrow> AppState" where
  "roomSnapshot uid roomType changes s =
     fold (\<lambda>change st. if type_c change = added
                        then roomUpdater roomType (roomMessage uid (doc_c change)) st
                        else st) changes s"

text \<open>The rooms the effect subscribes to and their store ids (lines 192, 251-253).\<close>

definition messageListeners :: "AppState \<Rightarrow> (RoomType \<times> string) list" where
  "messageListeners s =
     (case (user s, firebaseUid s) of
        (Some u, Some uid) \<Rightarrow>
          if isDemoMode s \<or> uid = [] \<or> \<not> db s then []
          else [(WORLD, ''WORLD_CHAT''),
                (COUNTRY, ''COUNTRY_'' @ country u),
                (STATE, ''STATE_'' @ state u @ ''_'' @ country u)]
      | _ \<Rightarrow> [])"

section \<open>Room feed: the one-on-one listener (lines 265-309)\<close>

definition oneOnOneMessage :: "string \<Rightarrow> string \<Rightarrow> MessageDoc \<Rightarrow> Message" where
  "oneOnOneMessage uid sessionID data =
     \<lparr>id_m = id_d data, sender = sender_d data, text_m = text_d data,
      timestamp = timestamp_d data, isMe = (senderUid_d data = Some uid),
      replyTo = replyTo_d data, readBy = [], translation = None,
      roomId = Some sessionID\<rparr>"

text \<open>The updater of lines 297-303: the entry with the same id is removed and the
  message is put at the end.\<close>

definition oneOnOneUpdater :: "Message \<Rightarrow> AppState \<Rightarrow> AppState" where
  "oneOnOneUpdater message s =
     (let prev = rooms s in
      s\<lparr>rooms := prev(ONE_ON_ONE := (prev ONE_ON_ONE)\<lparr>
          messages := filter (\<lambda>m. id_m m \<noteq> id_m message) (messages (prev ONE_ON_ONE))
                      @ [message]\<rparr>)\<rparr>)"

definition oneOnOneSnapshot :: "string \<Rightarrow> string \<Rightarrow> DocChange list \<Rightarrow> AppState \<Rightarrow> AppState" where
  "oneOnOneSnapshot uid sessionID changes s =
     fold (\<lambda>change st. if type_c change = added
                        then oneOnOneUpdater (oneOnOneMessage uid sessionID (doc_c change)) st
                        else st) changes s"

section \<open>The rendered message list (ChatWindow, visibleMessages)\<close>

text \<open>\<^verbatim>\<open>toLowerCase\<close> is the parameter \<open>lc\<close>; an empty string is falsy.\<close>

definition visibleMessages ::
  "(string \<Rightarrow> string) \<Rightarrow> string list \<Rightarrow> string \<Rightarrow> ChatRoom \<Rightarrow> Message list" where
  "visibleMessages lc blocked searchQuery room =
     filter (\<lambda>msg.
        if sender msg \<in> set blocked then False
        else if searchQuery \<noteq> [] \<and> text_m msg \<noteq> []
             then includes_str (lc (text_m msg)) (lc searchQuery)
        else True) (messages room)"

section \<open>The store: the queue, users and online_users collections\<close>

text \<open>
  A collection is an association list from document id to document, kept with one entry
  per id by \<open>AList.update\<close> and \<open>AList.delete\<close>. The documents have the fields
  the code writes (lines 147-153, 404-408, 430-439, 451-455). No line of the code writes
  to a collection of sessions; it is part of the store so that this can be stated.
\<close>

record QueueDoc =
  userId_q :: string
  timestamp_q :: int
  profile_q :: "UserProfile option"

datatype Status = searching | matched

record UserDoc =
  status_u :: Status
  sessionId_u :: "string option"
  profile_u :: "UserProfile option"
  partnerProfile_u :: "UserProfile option"

record OnlineUserDoc =
  userId_o :: string
  username_o :: string
  country_o :: string
  state_o :: string
  lastActive_o :: int

text \<open>\<^verbatim>\<open>SessionDoc\<close> of src/types.ts.\<close>

record SessionDoc =
  users_s :: "string list"
  createdAt_s :: int
  active_s :: bool
  userProfiles_s :: "(string \<times> UserProfile) list"

record Store =
  queue :: "(string \<times> QueueDoc) list"
  users :: "(string \<times> UserDoc) list"
  online_users :: "(string \<times> OnlineUserDoc) list"
  sessions :: "(string \<times> SessionDoc) list"

datatype error = StoreRejected

text \<open>
  The writes a transaction collects. \<^verbatim>\<open>transaction.update\<close> fails on a document that
  does not exist, and then none of the writes is applied.
\<close>

datatype Write =
    DeleteQueue string
  | UpdateUser string Status string UserProfile
  | SetQueue string QueueDoc

fun applyWrite :: "Write \<Rightarrow> Store \<Rightarrow> Store option" where
  "applyWrite (DeleteQueue k) st = Some (st\<lparr>queue := AList.delete k (queue st)\<rparr>)"
| "applyWrite (UpdateUser k stat sid partner) st =
     (case map_of (users st) k of
        None \<Rightarrow> None
      | Some d \<Rightarrow> Some (st\<lparr>users := AList.update k
                    (d\<lparr>status_u := stat, sessionId_u := Some sid,
                       partnerProfile_u := Some partner\<rparr>) (users st)\<rparr>))"
| "applyWrite (SetQueue k d) st = Some (st\<lparr>queue := AList.update k d (queue st)\<rparr>)"

fun commit :: "Write list \<Rightarrow> Store \<Rightarrow> Store option" where
  "commit [] st = Some st"
| "commit (w # ws) st =
     (case applyWrite w st of None \<Rightarrow> None | Some st' \<Rightarrow> commit ws st')"

section \<open>Matchmaking: startSearch (lines 386-461)\<close>

text \<open>Decimal rendering of a number inside a template string.\<close>

fun showNat :: "nat \<Rightarrow> string" where
  "showNat n = (if n < 10 then [char_of (48 + n)]
                else showNat (n div 10) @ [char_of (48 + n mod 10)])"

declare showNat.simps [simp del]

definition showInt :: "int \<Rightarrow> string" where
  "showInt i = (if i < 0 then CHR ''-'' # showNat (nat (- i)) else showNat (nat i))"

text \<open>
  What the environment supplies to one call: \<open>now\<close> is \<^verbatim>\<open>Date.now()\<close>, \<open>random\<close> is
  \<^verbatim>\<open>Math.random().toString(36).substr(2, 9)\<close>, \<open>setDocOk\<close> and \<open>commitOk\<close> say
  whether the store accepts the awaited \<^verbatim>\<open>setDoc\<close> and the transaction's commit.
\<close>

record SearchEnv =
  now :: int
  random :: string
  setDocOk :: bool
  commitOk :: bool

text \<open>\<^verbatim>\<open>`session_${Date.now()}_${Math.random().toString(36).substr(2, 9)}`\<close> (line 428).\<close>

definition newSessionId :: "SearchEnv \<Rightarrow> string" where
  "newSessionId env = ''session_'' @ showInt (now env) @ ''_'' @ random env"

text \<open>\<^verbatim>\<open>query(queueRef, orderBy('timestamp', 'asc'), limit(1))\<close>: documents by timestamp,
  equal timestamps by document id, and the first of them.\<close>

definition queueHead :: "Store \<Rightarrow> (string \<times> QueueDoc) list" where
  "queueHead st = take 1 (sort_key (\<lambda>(k, d). (timestamp_q d, k)) (queue st))"

text \<open>
  The transaction function (lines 411-457): it returns the writes it collected and the
  \<^verbatim>\<open>rooms\<close> cell after the \<^verbatim>\<open>setRooms\<close> call of the match branch, which runs
  inside the function, before the commit.
\<close>

definition transactionBody ::
  "SearchEnv \<Rightarrow> string \<Rightarrow> UserProfile \<Rightarrow> Store \<Rightarrow> (RoomType \<Rightarrow> ChatRoom)
     \<Rightarrow> Write list \<times> (RoomType \<Rightarrow> ChatRoom)" where
  "transactionBody env uid u st prev =
     (let querySnapshot = queueHead st;
          (matchFound, partnerUid, partnerProfile) =
             fold (\<lambda>(k, d) acc. if k \<noteq> uid then (True, k, profile_q d) else acc)
                  querySnapshot (False, [], None)
      in case (matchFound \<and> partnerUid \<noteq> [], partnerProfile) of
           (True, Some pp) \<Rightarrow>
             (let sid = newSessionId env in
              ([DeleteQueue partnerUid,
                UpdateUser partnerUid matched sid u,
                UpdateUser uid matched sid pp],
               prev(ONE_ON_ONE := (prev ONE_ON_ONE)\<lparr>isSearching := False,
                      connectedPartner := Some pp, sessionId := Some sid\<rparr>)))
         | _ \<Rightarrow>
             ([SetQueue uid \<lparr>userId_q = uid, timestamp_q = now env, profile_q = Some u\<rparr>],
              prev))"

text \<open>
  \<^verbatim>\<open>startSearch\<close>. A rejected \<^verbatim>\<open>setDoc\<close> leaves the function with the error (\<open>Inl\<close>,
  with the state reached so far); a failed transaction is caught and logged.
\<close>

definition startSearch ::
  "SearchEnv \<Rightarrow> AppState \<Rightarrow> Store
     \<Rightarrow> (error \<times> AppState \<times> Store) + (AppState \<times> Store)" where
  "startSearch env s st =
     (case user s of
        None \<Rightarrow> Inr (s, st)
      | Some u \<Rightarrow>
          (let s1 = s\<lparr>rooms := (rooms s)(ONE_ON_ONE :=
                         (rooms s ONE_ON_ONE)\<lparr>isSearching := True, messages := []\<rparr>)\<rparr>
           in if isDemoMode s then Inr (s1, st)
              else case firebaseUid s of
                None \<Rightarrow> Inr (s1, st)
              | Some uid \<Rightarrow>
                  if uid = [] \<or> \<not> db s then Inr (s1, st)
                  else if \<not> setDocOk env then Inl (StoreRejected, s1, st)
                  else
                    (let st1 = st\<lparr>users := AList.update uid
                                  \<lparr>status_u = searching, sessionId_u = None,
                                   profile_u = Some u, partnerProfile_u = None\<rparr> (users st)\<rparr>;
                         (writes, rooms') = transactionBody env uid u st1 (rooms s1);
                         s2 = s1\<lparr>rooms := rooms'\<rparr>
                     in case (if commitOk env then commit writes st1 else None) of
                          Some st2 \<Rightarrow> Inr (s2, st2)
                        | None \<Rightarrow>
                            Inr (s2\<lparr>console := console s2 @ [''Matchmaking error: '']\<rparr>, st1))))"

text \<open>
  Two clients searching at the same time. Each has written its own pointer (line 404);
  both transaction functions then read the queue before either commit reaches the store.
  The query of line 413 is a plain \<^verbatim>\<open>getDocs\<close>, not a read through the transaction, so
  the store has no read of the second transaction to check against the first commit:
  the writes of both are applied, one after the other. The result is the \<^verbatim>\<open>rooms\<close> cell
  of either client and the store, or \<open>None\<close> when a commit fails.
\<close>

definition concurrentSearches ::
  "SearchEnv \<Rightarrow> string \<Rightarrow> UserProfile \<Rightarrow> (RoomType \<Rightarrow> ChatRoom)
     \<Rightarrow> SearchEnv \<Rightarrow> string \<Rightarrow> UserProfile \<Rightarrow> (RoomType \<Rightarrow> ChatRoom)
     \<Rightarrow> Store
     \<Rightarrow> ((RoomType \<Rightarrow> ChatRoom) \<times> (RoomType \<Rightarrow> ChatRoom) \<times> Store) option" where
  "concurrentSearches env1 uid1 u1 prev1 env2 uid2 u2 prev2 st =
     (let st1 = st\<lparr>users := AList.update uid2
                    \<lparr>status_u = searching, sessionId_u = None,
                     profile_u = Some u2, partnerProfile_u = None\<rparr>
                    (AList.update uid1
                       \<lparr>status_u = searching, sessionId_u = None,
                        profile_u = Some u1, partnerProfile_u = None\<rparr> (users st))\<rparr>;
          (writes1, rooms1) = transactionBody env1 uid1 u1 st1 prev1;
          (writes2, rooms2) = transactionBody env2 uid2 u2 st1 prev2
      in case commit writes1 st1 of
           None \<Rightarrow> None
         | Some st2 \<Rightarrow>
             (case commit writes2 st2 of
                None \<Rightarrow> None
              | Some st3 \<Rightarrow> Some (rooms1, rooms2, st3)))"

section \<open>Login: handleLogin (lines 486-493)\<close>

definition handleLogin :: "UserProfile \<Rightarrow> AppState \<Rightarrow> AppState" where
  "handleLogin profile s =
     s\<lparr>user := Some profile,
       rooms := ((rooms s)(COUNTRY := (rooms s COUNTRY)\<lparr>name_r := country profile\<rparr>))
                  (STATE := (rooms s STATE)\<lparr>name_r := state profile @ '', '' @ country profile\<rparr>)\<rparr>"

section \<open>Logout: handleLogout (lines 495-521)\<close>

text \<open>
  The \<^verbatim>\<open>setRooms\<close> updater of lines 505-520. The loop assigns every key of the enum,
  so the empty object it starts from is never read.
\<close>

definition resetRooms :: "(RoomType \<Rightarrow> ChatRoom) \<Rightarrow> (RoomType \<Rightarrow> ChatRoom)" where
  "resetRooms prev =
     (let resetRooms1 =
            fold (\<lambda>type acc. acc(type := (prev type)\<lparr>messages := [], unreadCount := 0,
                     connectedPartner := None, sessionId := None, isSearching := False\<rparr>))
                 [WORLD, COUNTRY, STATE, ONE_ON_ONE] prev;
          resetRooms2 = resetRooms1(COUNTRY := (resetRooms1 COUNTRY)\<lparr>name_r := ''Country Chat''\<rparr>)
      in resetRooms2(STATE := (resetRooms2 STATE)\<lparr>name_r := ''State Chat''\<rparr>))"

text \<open>
  \<open>deleteOnlineOk\<close> and \<open>deleteQueueOk\<close> say whether the store accepts the two awaited
  \<^verbatim>\<open>deleteDoc\<close> calls; a rejected one leaves the function before anything is reset.
\<close>

definition handleLogout ::
  "bool \<Rightarrow> bool \<Rightarrow> AppState \<Rightarrow> Store \<Rightarrow> (error \<times> AppState \<times> Store) + (AppState \<times> Store)" where
  "handleLogout deleteOnlineOk deleteQueueOk s st =
     (let reset = s\<lparr>user := None, firebaseUid := None, activeRoom := WORLD,
                    isDemoMode := False, rooms := resetRooms (rooms s)\<rparr>
      in case firebaseUid s of
           None \<Rightarrow> Inr (reset, st)
         | Some uid \<Rightarrow>
             if \<not> isDemoMode s \<and> uid \<noteq> [] \<and> db s then
               (if \<not> deleteOnlineOk then Inl (StoreRejected, s, st)
                else let st1 = st\<lparr>online_users := AList.delete uid (online_users st)\<rparr>
                     in if \<not> deleteQueueOk then Inl (StoreRejected, s, st1)
                        else Inr (reset, st1\<lparr>queue := AList.delete uid (queue st1)\<rparr>))
             else Inr (reset, st))"

section \<open>Room selection and skip (lines 598-619)\<close>

definition handleSelectRoom ::
  "SearchEnv \<Rightarrow> RoomType \<Rightarrow> AppState \<Rightarrow> Store
     \<Rightarrow> (error \<times> AppState \<times> Store) + (AppState \<times> Store)" where
  "handleSelectRoom env roomType s st =
     (let s1 = s\<lparr>activeRoom := roomType,
                 rooms := (rooms s)(roomType := (rooms s roomType)\<lparr>unreadCount := 0\<rparr>)\<rparr>
      in if roomType = ONE_ON_ONE
            \<and> sessionId (rooms s ONE_ON_ONE) \<in> {None, Some []}
            \<and> \<not> isSearching (rooms s ONE_ON_ONE)
         then startSearch env s1 st
         else Inr (s1, st))"

definition handleSkip ::
  "SearchEnv \<Rightarrow> AppState \<Rightarrow> Store \<Rightarrow> (error \<times> AppState \<times> Store) + (AppState \<times> Store)" where
  "handleSkip env s st =
     startSearch env
       (s\<lparr>rooms := (rooms s)(ONE_ON_ONE := (rooms s ONE_ON_ONE)\<lparr>connectedPartner := None,
              sessionId := None, messages := []\<rparr>)\<rparr>) st"

section \<open>Demo mode: the simulation effect (lines 313-383)\<close>

text \<open>
  The effect runs again whenever \<^verbatim>\<open>isDemoMode\<close>, \<^verbatim>\<open>user\<close>, \<^verbatim>\<open>activeRoom\<close> or the
  one-on-one room's \<^verbatim>\<open>isSearching\<close> changes, and its cleanup clears the timer of the
  previous run: the timer pending in a state is the one \<open>demoEffect\<close> arms there.
  Delays are in milliseconds.
\<close>

datatype Callback = ConnectDemoPartner | WorldChatActivity

datatype Scheduled = SetTimeout Callback nat | SetInterval Callback nat

definition demoEffect :: "AppState \<Rightarrow> Scheduled option" where
  "demoEffect s =
     (if \<not> isDemoMode s \<or> user s = None then None
      else if activeRoom s = ONE_ON_ONE \<and> isSearching (rooms s ONE_ON_ONE)
              \<and> connectedPartner (rooms s ONE_ON_ONE) = None
           then Some (SetTimeout ConnectDemoPartner 1500)
      else Some (SetInterval WorldChatActivity 8000))"

definition demoPartner :: UserProfile where
  "demoPartner = \<lparr>userId = None, username = ''Plyxor Bot'', country = ''AI'', state = ''Virtual''\<rparr>"

text \<open>The timeout's callback (lines 318-347); \<open>t1\<close> to \<open>t4\<close> are its four readings of
  \<^verbatim>\<open>Date.now()\<close>, in order.\<close>

definition connectDemoPartner :: "int \<Rightarrow> int \<Rightarrow> int \<Rightarrow> int \<Rightarrow> AppState \<Rightarrow> AppState" where
  "connectDemoPartner t1 t2 t3 t4 s =
     (let prev = rooms s in
      s\<lparr>rooms := prev(ONE_ON_ONE := (prev ONE_ON_ONE)\<lparr>
          isSearching := False,
          connectedPartner := Some demoPartner,
          sessionId := Some ''demo-session'',
          messages :=
            [\<lparr>id_m = showInt t1, sender = ''System'',
              text_m = ''Demo Mode: Simulating connection because Firebase Auth is not fully configured.'',
              timestamp = t2, isMe = False, replyTo = None, readBy = [],
              translation = None, roomId = None\<rparr>,
             \<lparr>id_m = showInt (t3 + 1), sender = ''Plyxor Bot'',
              text_m = ''Hello! I am a simulated partner. You can chat with me while offline.'',
              timestamp = t4, isMe = False, replyTo = None, readBy = [],
              translation = None, roomId = None\<rparr>]\<rparr>)\<rparr>)"

section \<open>Translation: translateMessage (src/services/geminiService.ts)\<close>

text \<open>
  The external call \<^verbatim>\<open>ai.models.generateContent({model, contents})\<close> is the parameter
  \<open>generateContent\<close>: awaited, it rejects or resolves to a response whose \<^verbatim>\<open>text\<close>
  may be undefined. The result is the settled promise of \<^verbatim>\<open>translateMessage\<close>:
  \<open>Inl\<close> a rejection, \<open>Inr\<close> the string it resolves to.
\<close>

datatype 'a awaited = Rejects | Resolves 'a

record GenerateContentResponse =
  text_g :: "string option"

datatype translateError = TranslationError

definition translationPrompt :: "string \<Rightarrow> string \<Rightarrow> string" where
  "translationPrompt msgText targetLanguage =
     ''Translate the following informal chat message into '' @ targetLanguage
     @ ''. Keep the tone and slang if possible: '' @ [CHR 0x22] @ msgText @ [CHR 0x22]"

definition translateMessage ::
  "(string \<Rightarrow> string \<Rightarrow> GenerateContentResponse awaited) \<Rightarrow> string \<Rightarrow> string
     \<Rightarrow> translateError + string" where
  "translateMessage generateContent msgText targetLanguage =
     (let prompt = translationPrompt msgText targetLanguage
      in case generateContent ''gemini-2.5-flash'' prompt of
           Rejects \<Rightarrow> Inr msgText
         | Resolves response \<Rightarrow>
             (case text_g response of
                None \<Rightarrow> Inr msgText
              | Some t \<Rightarrow> if t = [] then Inr msgText else Inr t))"

section \<open>Example data\<close>

text \<open>Two users, a logged-in client and small stores, used to run the functions above on
  concrete inputs.\<close>

definition alice :: UserProfile where
  "alice = \<lparr>userId = Some ''uidA'', username = ''alice'', country = ''Brazil'', state = ''Bahia''\<rparr>"

definition bob :: UserProfile where
  "bob = \<lparr>userId = Some ''uidB'', username = ''bob'', country = ''Brazil'', state = ''Bahia''\<rparr>"

definition aliceState :: AppState where
  "aliceState = \<lparr>user = Some alice, firebaseUid = Some ''uidA'', isDemoMode = False,
      activeRoom = COUNTRY, blockedUsers = [], rooms = initialRooms, db = True,
      notificationGranted = True, notifications = [], console = []\<rparr>"

definition aliceBlockedBob :: AppState where
  "aliceBlockedBob = aliceState\<lparr>blockedUsers := [''bob'']\<rparr>"

definition m1 :: Message where
  "m1 = \<lparr>id_m = ''m1'', sender = ''bob'', text_m = ''@alice hi'', timestamp = 100,
          isMe = False, replyTo = None, readBy = [], translation = None, roomId = None\<rparr>"

definition m2 :: Message where
  "m2 = \<lparr>id_m = ''m2'', sender = ''alice'', text_m = ''hello'', timestamp = 200,
          isMe = True, replyTo = None, readBy = [], translation = None, roomId = None\<rparr>"

definition d1 :: MessageDoc where
  "d1 = \<lparr>id_d = ''m1'', sender_d = ''bob'', text_d = ''@alice hi'', timestamp_d = 100,
          senderUid_d = Some ''uidB'', replyTo_d = None, readBy_d = None,
          translation_d = None, roomId_d = Some ''session_1''\<rparr>"





text \<open>alice in demo mode (no store, no Firebase uid), logged in, with the country room in
  the foreground.\<close>

definition aliceDemo :: AppState where
  "aliceDemo = aliceState\<lparr>isDemoMode := True, firebaseUid := None, db := False\<rparr>"

definition carol :: UserProfile where
  "carol = \<lparr>userId = Some ''uidC'', username = ''carol'', country = ''Brazil'', state = ''Ceara''\<rparr>"

text \<open>A second call, at the same time of day, with its own random suffix.\<close>

definition searchEnv2 :: SearchEnv where
  "searchEnv2 = \<lparr>now = 1000, random = ''z8y7x6w5v'', setDocOk = True, commitOk = True\<rparr>"

definition searchEnv :: SearchEnv where
  "searchEnv = \<lparr>now = 1000, random = ''k3j9x0a1b'', setDocOk = True, commitOk = True\<rparr>"

definition emptyStore :: Store where
  "emptyStore = \<lparr>queue = [], users = [], online_users = [], sessions = []\<rparr>"

text \<open>bob is waiting in the queue.\<close>

definition bobWaiting :: Store where
  "bobWaiting = \<lparr>queue = [(''uidB'', \<lparr>userId_q = ''uidB'', timestamp_q = 500, profile_q = Some bob\<rparr>)],
      users = [(''uidB'', \<lparr>status_u = searching, sessionId_u = None, profile_u = Some bob,
                           partnerProfile_u = None\<rparr>)],
      online_users = [], sessions = []\<rparr>"

text \<open>bob is waiting, and an older entry of alice's own is still in the queue.\<close>

definition aliceStale :: Store where
  "aliceStale = \<lparr>queue = [(''uidA'', \<lparr>userId_q = ''uidA'', timestamp_q = 100, profile_q = Some alice\<rparr>),
                           (''uidB'', \<lparr>userId_q = ''uidB'', timestamp_q = 500, profile_q = Some bob\<rparr>)],
      users = [(''uidA'', \<lparr>status_u = searching, sessionId_u = None, profile_u = Some alice,
                           partnerProfile_u = None\<rparr>),
               (''uidB'', \<lparr>status_u = searching, sessionId_u = None, profile_u = Some bob,
                           partnerProfile_u = None\<rparr>)],
      online_users = [], sessions = []\<rparr>"

section \<open>Properties of the room feed\<close>

lemma list_ex_id:
  "list_ex (\<lambda>x. id_m x = i) xs \<longleftrightarrow> i \<in> id_m ` set xs"
  by (induction xs) auto

lemma roomUpdater_messages:
  "messages (rooms (roomUpdater rt m s) rt) =
     (if id_m m \<in> id_m ` set (messages (rooms s rt)) then messages (rooms s rt)
      else messages (rooms s rt) @ [m])"
  by (simp_all add: roomUpdater_def Let_def list_ex_id)

lemma roomUpdater_duplicate:
  "id_m m \<in> id_m ` set (messages (rooms s rt)) \<Longrightarrow> roomUpdater rt m s = s"
  by (simp_all add: roomUpdater_def Let_def list_ex_id)

lemma roomUpdater_frame:
  "blockedUsers (roomUpdater rt m s) = blockedUsers s"
  "activeRoom (roomUpdater rt m s) = activeRoom s"
  "user (roomUpdater rt m s) = user s"
  by (simp_all add: roomUpdater_def Let_def)

lemma roomUpdater_unreadCount:
  "id_m m \<notin> id_m ` set (messages (rooms s rt)) \<Longrightarrow>
   unreadCount (rooms (roomUpdater rt m s) rt) =
     (if activeRoom s \<noteq> rt \<and> \<not> isMe m \<and> \<not> muted (rooms s rt) \<and> sender m \<notin> set (blockedUsers s)
      then unreadCount (rooms s rt) + 1 else unreadCount (rooms s rt))"
  by (simp_all add: roomUpdater_def Let_def list_ex_id)

lemma roomUpdater_distinct:
  "distinct (map id_m (messages (rooms s rt))) \<Longrightarrow>
   distinct (map id_m (messages (rooms (roomUpdater rt m s) rt)))"
  by (simp add: roomUpdater_messages)

lemma roomSnapshot_distinct:
  "distinct (map id_m (messages (rooms s rt))) \<Longrightarrow>
   distinct (map id_m (messages (rooms (roomSnapshot uid rt changes s) rt)))"
  unfolding roomSnapshot_def
  by (induction changes arbitrary: s) (simp_all add: roomUpdater_distinct)

lemma oneOnOneUpdater_messages:
  "messages (rooms (oneOnOneUpdater m s) ONE_ON_ONE) =
     filter (\<lambda>x. id_m x \<noteq> id_m m) (messages (rooms s ONE_ON_ONE)) @ [m]"
  by (simp add: oneOnOneUpdater_def Let_def)

lemma oneOnOneUpdater_distinct:
  "distinct (map id_m (messages (rooms s ONE_ON_ONE))) \<Longrightarrow>
   distinct (map id_m (messages (rooms (oneOnOneUpdater m s) ONE_ON_ONE)))"
  by (auto simp: oneOnOneUpdater_messages distinct_map_filter)

lemma oneOnOneSnapshot_distinct:
  "distinct (map id_m (messages (rooms s ONE_ON_ONE))) \<Longrightarrow>
   distinct (map id_m (messages (rooms (oneOnOneSnapshot uid sid changes s) ONE_ON_ONE)))"
  unfolding oneOnOneSnapshot_def
  by (induction changes arbitrary: s) (simp_all add: oneOnOneUpdater_distinct)

lemma count_one_if_distinct:
  "distinct (map f xs) \<Longrightarrow> x \<in> set xs \<Longrightarrow> length (filter (\<lambda>y. f y = f x) xs) = 1"
proof (induction xs)
  case Nil then show ?case by simp
next
  case (Cons a xs)
  show ?case
  proof (cases "f a = f x")
    case True
    from Cons.prems(1) have "f a \<notin> f ` set xs" by simp
    with True have "\<forall>y\<in>set xs. f y \<noteq> f x" by (metis imageI)
    then have "filter (\<lambda>y. f y = f x) xs = []" by (simp add: filter_empty_conv)
    with True show ?thesis by simp
  next
    case False
    with Cons show ?thesis by auto
  qed
qed

lemma visibleMessages_blocked:
  "x \<in> set (visibleMessages lc blocked q room) \<Longrightarrow> sender x \<notin> set blocked"
  by (auto simp: visibleMessages_def split: if_splits)

text \<open>
  Claim C5. Room.messages holds at most one entry per message id: the ids stay distinct
  under every sequence of snapshots delivered to a broadcast room and to the one-on-one
  room, redeliveries included, and a document delivered twice leaves exactly one entry
  with its id.
\<close>

theorem message_ids_unique:
  "(distinct (map id_m (messages (rooms s rt))) \<longrightarrow>
      distinct (map id_m (messages (rooms (fold (roomSnapshot uid rt) snapshots s) rt))))
   \<and> (distinct (map id_m (messages (rooms s ONE_ON_ONE))) \<longrightarrow>
      distinct (map id_m (messages (rooms (fold (oneOnOneSnapshot uid sid) snapshots s) ONE_ON_ONE))))
   \<and> (distinct (map id_m (messages (rooms s rt))) \<longrightarrow>
      length (filter (\<lambda>m. id_m m = id_d d)
        (messages (rooms (roomSnapshot uid rt
           [\<lparr>type_c = added, doc_c = d\<rparr>, \<lparr>type_c = added, doc_c = d\<rparr>] s) rt))) = 1)
   \<and> length (filter (\<lambda>m. id_m m = id_d d)
        (messages (rooms (oneOnOneSnapshot uid sid
           [\<lparr>type_c = added, doc_c = d\<rparr>, \<lparr>type_c = added, doc_c = d\<rparr>] s) ONE_ON_ONE))) = 1"
proof (intro conjI impI)
  assume "distinct (map id_m (messages (rooms s rt)))"
  then show "distinct (map id_m (messages (rooms (fold (roomSnapshot uid rt) snapshots s) rt)))"
    by (induction snapshots arbitrary: s) (simp_all add: roomSnapshot_distinct)
next
  assume "distinct (map id_m (messages (rooms s ONE_ON_ONE)))"
  then show "distinct (map id_m (messages (rooms (fold (oneOnOneSnapshot uid sid) snapshots s) ONE_ON_ONE)))"
    by (induction snapshots arbitrary: s) (simp_all add: oneOnOneSnapshot_distinct)
next
  assume d: "distinct (map id_m (messages (rooms s rt)))"
  let ?m = "roomMessage uid d"
  let ?s1 = "roomUpdater rt ?m s"
  have in1: "id_m ?m \<in> id_m ` set (messages (rooms ?s1 rt))"
    by (simp add: roomUpdater_messages)
  then obtain x where x: "x \<in> set (messages (rooms ?s1 rt))" "id_m x = id_m ?m" by auto
  have "roomUpdater rt ?m ?s1 = ?s1" using in1 by (rule roomUpdater_duplicate)
  moreover have "distinct (map id_m (messages (rooms ?s1 rt)))"
    using d by (rule roomUpdater_distinct)
  moreover have "id_m ?m = id_d d" by (simp add: roomMessage_def)
  ultimately show "length (filter (\<lambda>m. id_m m = id_d d)
        (messages (rooms (roomSnapshot uid rt
           [\<lparr>type_c = added, doc_c = d\<rparr>, \<lparr>type_c = added, doc_c = d\<rparr>] s) rt))) = 1"
    using count_one_if_distinct [of id_m "messages (rooms ?s1 rt)" x] x
    by (simp add: roomSnapshot_def)
next
  show "length (filter (\<lambda>m. id_m m = id_d d)
        (messages (rooms (oneOnOneSnapshot uid sid
           [\<lparr>type_c = added, doc_c = d\<rparr>, \<lparr>type_c = added, doc_c = d\<rparr>] s) ONE_ON_ONE))) = 1"
    by (simp add: oneOnOneSnapshot_def oneOnOneUpdater_messages oneOnOneMessage_def
        filter_empty_conv)
qed

theorem message_ids_unique_witness:
  "distinct (map id_m (messages (rooms aliceState WORLD)))
   \<and> distinct (map id_m (messages (rooms aliceState ONE_ON_ONE)))
   \<and> distinct (map id_m (messages (rooms
        (fold (roomSnapshot ''uidA'' WORLD)
           [[\<lparr>type_c = added, doc_c = d1\<rparr>], [\<lparr>type_c = added, doc_c = d1\<rparr>]] aliceState) WORLD)))
   \<and> distinct (map id_m (messages (rooms
        (fold (oneOnOneSnapshot ''uidA'' ''session_1'')
           [[\<lparr>type_c = added, doc_c = d1\<rparr>], [\<lparr>type_c = added, doc_c = d1\<rparr>]] aliceState) ONE_ON_ONE)))
   \<and> length (filter (\<lambda>m. id_m m = id_d d1)
        (messages (rooms (roomSnapshot ''uidA'' WORLD
           [\<lparr>type_c = added, doc_c = d1\<rparr>, \<lparr>type_c = added, doc_c = d1\<rparr>] aliceState) WORLD))) = 1"
proof -
  have h: "distinct (map id_m (messages (rooms aliceState WORLD)))"
          "distinct (map id_m (messages (rooms aliceState ONE_ON_ONE)))"
    by (simp_all add: aliceState_def initialRooms_def)
  show ?thesis
    using h message_ids_unique [of aliceState WORLD "''uidA''"
        "[[\<lparr>type_c = added, doc_c = d1\<rparr>], [\<lparr>type_c = added, doc_c = d1\<rparr>]]" "''session_1''" d1]
    by blast
qed

text \<open>
  Claim C4, as stated, at a redelivered message: the world room is in the background and
  not muted, the sender is neither the user nor blocked, and the message id is already in
  the room; the unread count does not go up.
\<close>

theorem unreadCount_redelivery_counterexample:
  "activeRoom (roomUpdater WORLD m1 aliceState) \<noteq> WORLD
   \<and> \<not> isMe m1
   \<and> \<not> muted (rooms (roomUpdater WORLD m1 aliceState) WORLD)
   \<and> sender m1 \<notin> set (blockedUsers (roomUpdater WORLD m1 aliceState))
   \<and> unreadCount (rooms (roomUpdater WORLD m1 (roomUpdater WORLD m1 aliceState)) WORLD)
       \<noteq> unreadCount (rooms (roomUpdater WORLD m1 aliceState) WORLD) + 1"
  by (simp add: roomUpdater_def Let_def aliceState_def initialRooms_def m1_def)

text \<open>
  Claim C4, amended. For a message arriving on a broadcast room subscription whose id is
  not yet in the room, unreadCount goes up by exactly 1 if the room is not the foreground
  room, the sender is not the user, the room is not muted and the sender is not blocked,
  and is unchanged otherwise; a message whose id is already in the room leaves unreadCount
  unchanged.
\<close>

theorem unreadCount_policy:
  "(id_m m \<notin> id_m ` set (messages (rooms s rt)) \<longrightarrow>
      unreadCount (rooms (roomUpdater rt m s) rt) =
        (if activeRoom s \<noteq> rt \<and> \<not> isMe m \<and> \<not> muted (rooms s rt)
            \<and> sender m \<notin> set (blockedUsers s)
         then unreadCount (rooms s rt) + 1 else unreadCount (rooms s rt)))
   \<and> (id_m m \<in> id_m ` set (messages (rooms s rt)) \<longrightarrow>
      unreadCount (rooms (roomUpdater rt m s) rt) = unreadCount (rooms s rt))"
  by (simp add: roomUpdater_unreadCount roomUpdater_duplicate)

theorem unreadCount_policy_witness:
  "id_m m1 \<notin> id_m ` set (messages (rooms aliceState WORLD))
   \<and> unreadCount (rooms (roomUpdater WORLD m1 aliceState) WORLD) = 1
   \<and> id_m m1 \<in> id_m ` set (messages (rooms (roomUpdater WORLD m1 aliceState) WORLD))
   \<and> unreadCount (rooms (roomUpdater WORLD m1 (roomUpdater WORLD m1 aliceState)) WORLD) = 1"
proof -
  have new: "id_m m1 \<notin> id_m ` set (messages (rooms aliceState WORLD))"
    by (simp add: aliceState_def initialRooms_def)
  have seen: "id_m m1 \<in> id_m ` set (messages (rooms (roomUpdater WORLD m1 aliceState) WORLD))"
    by (simp add: roomUpdater_messages)
  have one: "unreadCount (rooms (roomUpdater WORLD m1 aliceState) WORLD) = 1"
    using new unreadCount_policy [of m1 aliceState WORLD]
    by (simp add: aliceState_def initialRooms_def m1_def)
  have "unreadCount (rooms (roomUpdater WORLD m1 (roomUpdater WORLD m1 aliceState)) WORLD) = 1"
    using seen one unreadCount_policy [of m1 "roomUpdater WORLD m1 aliceState" WORLD]
    by simp
  with new seen one show ?thesis by blast
qed

text \<open>
  Claim C7. A message whose sender is blocked is not in the rendered list, leaves
  unreadCount as it is and raises no notification, whatever its text; it is stored in
  Room.messages all the same (appended when its id is new), so that a second delivery is
  dropped as a duplicate. The same holds for the one-on-one listener.
\<close>

theorem blocked_sender_hidden_but_stored:
  assumes "sender m \<in> set (blockedUsers s)"
  shows "m \<notin> set (visibleMessages lc (blockedUsers (roomUpdater rt m s)) q
                    (rooms (roomUpdater rt m s) rt))
       \<and> unreadCount (rooms (roomUpdater rt m s) rt) = unreadCount (rooms s rt)
       \<and> notifications (roomUpdater rt m s) = notifications s
       \<and> id_m m \<in> id_m ` set (messages (rooms (roomUpdater rt m s) rt))
       \<and> (id_m m \<notin> id_m ` set (messages (rooms s rt)) \<longrightarrow>
            messages (rooms (roomUpdater rt m s) rt) = messages (rooms s rt) @ [m])
       \<and> roomUpdater rt m (roomUpdater rt m s) = roomUpdater rt m s
       \<and> m \<notin> set (visibleMessages lc (blockedUsers (oneOnOneUpdater m s)) q
                    (rooms (oneOnOneUpdater m s) ONE_ON_ONE))
       \<and> unreadCount (rooms (oneOnOneUpdater m s) ONE_ON_ONE) = unreadCount (rooms s ONE_ON_ONE)
       \<and> notifications (oneOnOneUpdater m s) = notifications s
       \<and> messages (rooms (oneOnOneUpdater m s) ONE_ON_ONE)
           = filter (\<lambda>x. id_m x \<noteq> id_m m) (messages (rooms s ONE_ON_ONE)) @ [m]"
proof -
  have a: "m \<notin> set (visibleMessages lc (blockedUsers (roomUpdater rt m s)) q
                    (rooms (roomUpdater rt m s) rt))"
    using assms visibleMessages_blocked [of m lc "blockedUsers s" q] by (auto simp: roomUpdater_frame)
  have b: "unreadCount (rooms (roomUpdater rt m s) rt) = unreadCount (rooms s rt)"
    using assms by (auto simp: roomUpdater_def Let_def)
  have c: "notifications (roomUpdater rt m s) = notifications s"
    using assms by (auto simp: roomUpdater_def Let_def)
  have d: "id_m m \<in> id_m ` set (messages (rooms (roomUpdater rt m s) rt))"
    by (simp add: roomUpdater_messages)
  have e: "roomUpdater rt m (roomUpdater rt m s) = roomUpdater rt m s"
    using d by (rule roomUpdater_duplicate)
  have f: "m \<notin> set (visibleMessages lc (blockedUsers (oneOnOneUpdater m s)) q
                    (rooms (oneOnOneUpdater m s) ONE_ON_ONE))"
    using assms visibleMessages_blocked [of m lc "blockedUsers s" q]
    by (auto simp: oneOnOneUpdater_def Let_def)
  have g: "unreadCount (rooms (oneOnOneUpdater m s) ONE_ON_ONE) = unreadCount (rooms s ONE_ON_ONE)"
     "notifications (oneOnOneUpdater m s) = notifications s"
    by (simp_all add: oneOnOneUpdater_def Let_def)
  show ?thesis using a b c d e f g
    by (simp add: roomUpdater_messages oneOnOneUpdater_messages)
qed

theorem blocked_sender_hidden_but_stored_witness:
  "sender m1 \<in> set (blockedUsers aliceBlockedBob)
   \<and> includes_str (text_m m1) (mentionText (user aliceBlockedBob))
   \<and> m1 \<notin> set (visibleMessages (\<lambda>x. x) (blockedUsers (roomUpdater WORLD m1 aliceBlockedBob)) []
                   (rooms (roomUpdater WORLD m1 aliceBlockedBob) WORLD))
   \<and> unreadCount (rooms (roomUpdater WORLD m1 aliceBlockedBob) WORLD) = 0
   \<and> notifications (roomUpdater WORLD m1 aliceBlockedBob) = []
   \<and> messages (rooms (roomUpdater WORLD m1 aliceBlockedBob) WORLD) = [m1]"
proof -
  have b: "sender m1 \<in> set (blockedUsers aliceBlockedBob)"
    by (simp add: aliceBlockedBob_def m1_def)
  have t: "includes_str (text_m m1) (mentionText (user aliceBlockedBob))"
    by (simp add: aliceBlockedBob_def aliceState_def m1_def mentionText_def alice_def)
  have e: "messages (rooms aliceBlockedBob WORLD) = []"
          "unreadCount (rooms aliceBlockedBob WORLD) = 0" "notifications aliceBlockedBob = []"
    by (simp_all add: aliceBlockedBob_def aliceState_def initialRooms_def)
  show ?thesis
    using b t e blocked_sender_hidden_but_stored [OF b, of "\<lambda>x. x" WORLD "[]"]
    by simp
qed

section \<open>Properties of logout\<close>

lemma resetRooms_apply:
  "resetRooms prev t =
     (prev t)\<lparr>messages := [], unreadCount := 0, connectedPartner := None, sessionId := None,
              isSearching := False,
              name_r := (if t = COUNTRY then ''Country Chat''
                         else if t = STATE then ''State Chat'' else name_r (prev t))\<rparr>"
  by (cases t) (simp_all add: resetRooms_def Let_def)

lemma handleLogout_rooms:
  "handleLogout a b s st = Inr (s', st') \<Longrightarrow> rooms s' = resetRooms (rooms s)"
  by (auto simp: handleLogout_def Let_def split: option.splits if_splits)

text \<open>
  What a completed logout does: every room is reset to empty messages, unreadCount 0, no
  connectedPartner, no sessionId and isSearching false, the COUNTRY and STATE rooms get
  their default names, and each room keeps its muted flag. The logout completes whenever
  the store accepts the two deletes, and always in demo mode or without a Firebase uid.
\<close>

lemma handleLogout_resets_rooms:
  "((deleteOnlineOk \<and> deleteQueueOk) \<or> isDemoMode s \<or> firebaseUid s = None \<or> \<not> db s
      \<longrightarrow> (\<exists>s' st'. handleLogout deleteOnlineOk deleteQueueOk s st = Inr (s', st')))
   \<and> (\<forall>s' st'. handleLogout deleteOnlineOk deleteQueueOk s st = Inr (s', st') \<longrightarrow>
         (\<forall>t. messages (rooms s' t) = [] \<and> unreadCount (rooms s' t) = 0
              \<and> connectedPartner (rooms s' t) = None \<and> sessionId (rooms s' t) = None
              \<and> \<not> isSearching (rooms s' t)
              \<and> muted (rooms s' t) = muted (rooms s t))
         \<and> name_r (rooms s' COUNTRY) = ''Country Chat''
         \<and> name_r (rooms s' STATE) = ''State Chat'')"
proof (intro conjI impI allI)
  assume "(deleteOnlineOk \<and> deleteQueueOk) \<or> isDemoMode s \<or> firebaseUid s = None \<or> \<not> db s"
  then show "\<exists>s' st'. handleLogout deleteOnlineOk deleteQueueOk s st = Inr (s', st')"
    by (auto simp: handleLogout_def Let_def split: option.splits)
next
  fix s' st' t
  assume h: "handleLogout deleteOnlineOk deleteQueueOk s st = Inr (s', st')"
  have r: "rooms s' = resetRooms (rooms s)" using h by (rule handleLogout_rooms)
  show "messages (rooms s' t) = []" "unreadCount (rooms s' t) = 0"
     "connectedPartner (rooms s' t) = None" "sessionId (rooms s' t) = None"
     "\<not> isSearching (rooms s' t)" "muted (rooms s' t) = muted (rooms s t)"
     "name_r (rooms s' COUNTRY) = ''Country Chat''" "name_r (rooms s' STATE) = ''State Chat''"
    by (simp_all add: r resetRooms_apply)
qed

lemma handleLogout_resets_rooms_example:
  "\<exists>s' st'. handleLogout True True
        (aliceState\<lparr>rooms := initialRooms(WORLD := (initialRooms WORLD)\<lparr>muted := True,
             messages := [m1], unreadCount := 1\<rparr>)\<rparr>) bobWaiting = Inr (s', st')
      \<and> messages (rooms s' WORLD) = [] \<and> unreadCount (rooms s' WORLD) = 0
      \<and> muted (rooms s' WORLD) \<and> \<not> muted (rooms s' STATE)"
proof -
  let ?s = "aliceState\<lparr>rooms := initialRooms(WORLD := (initialRooms WORLD)\<lparr>muted := True,
             messages := [m1], unreadCount := 1\<rparr>)\<rparr>"
  note t = handleLogout_resets_rooms [of True True ?s bobWaiting]
  from t obtain s' st' where h: "handleLogout True True ?s bobWaiting = Inr (s', st')"
    by blast
  from t h have r: "\<forall>t. messages (rooms s' t) = [] \<and> unreadCount (rooms s' t) = 0
      \<and> muted (rooms s' t) = muted (rooms ?s t)"
    by blast
  have "muted (rooms ?s WORLD)" "\<not> muted (rooms ?s STATE)"
    by (simp_all add: initialRooms_def)
  with r h show ?thesis by auto
qed

text \<open>
  Claim C10, at a logout whose first delete the store rejects (real mode, the world room
  holding a message and an unread count of 1): the awaited \<^verbatim>\<open>deleteDoc\<close> of lines 497-498
  has no handler, so handleLogout ends with the rejection before any of its resets; the
  room keeps its message and its unread count and the user stays logged in.
\<close>

theorem handleLogout_rejected_delete:
  "handleLogout False True
      (aliceState\<lparr>rooms := initialRooms(WORLD := (initialRooms WORLD)\<lparr>messages := [m1],
           unreadCount := 1\<rparr>)\<rparr>) bobWaiting
     = Inl (StoreRejected,
            aliceState\<lparr>rooms := initialRooms(WORLD := (initialRooms WORLD)\<lparr>messages := [m1],
              unreadCount := 1\<rparr>)\<rparr>, bobWaiting)
   \<and> messages (rooms (fst (snd (projl (handleLogout False True
      (aliceState\<lparr>rooms := initialRooms(WORLD := (initialRooms WORLD)\<lparr>messages := [m1],
           unreadCount := 1\<rparr>)\<rparr>) bobWaiting)))) WORLD) = [m1]
   \<and> unreadCount (rooms (fst (snd (projl (handleLogout False True
      (aliceState\<lparr>rooms := initialRooms(WORLD := (initialRooms WORLD)\<lparr>messages := [m1],
           unreadCount := 1\<rparr>)\<rparr>) bobWaiting)))) WORLD) = 1
   \<and> user (fst (snd (projl (handleLogout False True
      (aliceState\<lparr>rooms := initialRooms(WORLD := (initialRooms WORLD)\<lparr>messages := [m1],
           unreadCount := 1\<rparr>)\<rparr>) bobWaiting)))) = Some alice"
  by (simp add: handleLogout_def Let_def aliceState_def)

section \<open>Properties of matchmaking\<close>

lemma queueHead_users [simp]: "queueHead (st\<lparr>users := x\<rparr>) = queueHead st"
  by (simp add: queueHead_def)

lemma queueHead_earliest:
  assumes "queueHead st = [(p, d)]"
  shows "(p, d) \<in> set (queue st) \<and> (\<forall>e \<in> set (queue st). timestamp_q d \<le> timestamp_q (snd e))"
proof -
  let ?f = "\<lambda>(k, d). (timestamp_q d, k)"
  let ?l = "sort_key ?f (queue st)"
  from assms obtain rest where l: "?l = (p, d) # rest"
    by (cases ?l) (auto simp: queueHead_def)
  have "sorted (map ?f ?l)" by (rule sorted_sort_key)
  with l have le: "\<forall>e \<in> set ?l. ?f (p, d) \<le> ?f e" by auto
  have set: "set ?l = set (queue st)" by simp
  have "(p, d) \<in> set ?l" using l by simp
  moreover have "\<forall>e \<in> set ?l. timestamp_q d \<le> timestamp_q (snd e)"
    using le by (auto simp: less_eq_prod_def)
  ultimately show ?thesis using set by simp
qed

lemma queueHead_nonempty: "queue st \<noteq> [] \<Longrightarrow> \<exists>p d. queueHead st = [(p, d)]"
proof -
  assume "queue st \<noteq> []"
  then have "sort_key (\<lambda>(k, d). (timestamp_q d, k)) (queue st) \<noteq> []"
    by (metis length_sort length_0_conv)
  then show ?thesis
    by (cases "sort_key (\<lambda>(k, d). (timestamp_q d, k)) (queue st)") (auto simp: queueHead_def)
qed

lemma transactionBody_match:
  assumes "queueHead st = [(p, d)]" "p \<noteq> uid" "p \<noteq> []" "profile_q d = Some pp"
  shows "transactionBody env uid u st prev =
     ([DeleteQueue p, UpdateUser p matched (newSessionId env) u,
       UpdateUser uid matched (newSessionId env) pp],
      prev(ONE_ON_ONE := (prev ONE_ON_ONE)\<lparr>isSearching := False,
             connectedPartner := Some pp, sessionId := Some (newSessionId env)\<rparr>))"
  using assms by (simp add: transactionBody_def Let_def)

text \<open>
  Claim C1, as stated, at a queue that holds another user's entry: alice's call matches
  bob (his entry is deleted, her room shows him as partner), and the collection of
  sessions is as empty as before; no Session record is created.
\<close>

theorem startSearch_no_session_record_counterexample:
  "map_of (queue bobWaiting) ''uidB'' \<noteq> None
   \<and> \<not> isl (startSearch searchEnv aliceState bobWaiting)
   \<and> map_of (queue (snd (projr (startSearch searchEnv aliceState bobWaiting)))) ''uidB'' = None
   \<and> connectedPartner (rooms (fst (projr (startSearch searchEnv aliceState bobWaiting))) ONE_ON_ONE) = Some bob
   \<and> sessions (snd (projr (startSearch searchEnv aliceState bobWaiting))) = []"
  by (simp add: startSearch_def transactionBody_def queueHead_def Let_def
      searchEnv_def aliceState_def bobWaiting_def)

text \<open>
  Claim C1, amended. For every call to startSearch in real mode, the store accepting the
  pointer write and the commit, in which the earliest QueueEntry belongs to another user,
  carries a profile and that user's SessionPointer exists: the call deletes that
  candidate's QueueEntry and, in the same transaction, sets the candidate's and the
  caller's SessionPointer to status matched with the same sessionId (built from the
  current time and a random suffix) and each other's profiles; the other queue entries
  and the collection of sessions are left as they were, and no Session record is created.
\<close>

theorem startSearch_match:
  assumes "user s = Some u" "\<not> isDemoMode s" "firebaseUid s = Some uid" "uid \<noteq> []" "db s"
      "setDocOk env" "commitOk env"
      "queueHead st = [(p, d)]" "p \<noteq> uid" "p \<noteq> []" "profile_q d = Some pp"
      "map_of (users st) p = Some pd"
  shows "\<exists>s' st'. startSearch env s st = Inr (s', st')
      \<and> map_of (queue st') p = None
      \<and> (\<forall>k. k \<noteq> p \<longrightarrow> map_of (queue st') k = map_of (queue st) k)
      \<and> map_of (users st') p = Some (pd\<lparr>status_u := matched,
            sessionId_u := Some (newSessionId env), partnerProfile_u := Some u\<rparr>)
      \<and> map_of (users st') uid = Some \<lparr>status_u = matched,
            sessionId_u = Some (newSessionId env), profile_u = Some u,
            partnerProfile_u = Some pp\<rparr>
      \<and> sessions st' = sessions st
      \<and> connectedPartner (rooms s' ONE_ON_ONE) = Some pp
      \<and> sessionId (rooms s' ONE_ON_ONE) = Some (newSessionId env)
      \<and> \<not> isSearching (rooms s' ONE_ON_ONE)"
  using assms
  by (simp add: startSearch_def Let_def transactionBody_match update_conv delete_conv)

theorem startSearch_match_witness:
  "queueHead bobWaiting
      = [(''uidB'', \<lparr>userId_q = ''uidB'', timestamp_q = 500, profile_q = Some bob\<rparr>)]
   \<and> (\<exists>s' st'. startSearch searchEnv aliceState bobWaiting = Inr (s', st')
         \<and> map_of (queue st') ''uidB'' = None
         \<and> map_of (users st') ''uidA'' = Some \<lparr>status_u = matched,
              sessionId_u = Some (newSessionId searchEnv), profile_u = Some alice,
              partnerProfile_u = Some bob\<rparr>
         \<and> map_of (users st') ''uidB'' = Some \<lparr>status_u = matched,
              sessionId_u = Some (newSessionId searchEnv), profile_u = Some bob,
              partnerProfile_u = Some alice\<rparr>
         \<and> sessions st' = [])"
proof -
  have q: "queueHead bobWaiting
      = [(''uidB'', \<lparr>userId_q = ''uidB'', timestamp_q = 500, profile_q = Some bob\<rparr>)]"
    by (simp add: queueHead_def bobWaiting_def)
  have u: "map_of (users bobWaiting) ''uidB'' = Some \<lparr>status_u = searching,
      sessionId_u = None, profile_u = Some bob, partnerProfile_u = None\<rparr>"
    by (simp add: bobWaiting_def)
  have a: "user aliceState = Some alice" "\<not> isDemoMode aliceState"
      "firebaseUid aliceState = Some ''uidA''" "db aliceState"
      "setDocOk searchEnv" "commitOk searchEnv"
    by (simp_all add: aliceState_def searchEnv_def)
  have "sessions bobWaiting = []" by (simp add: bobWaiting_def)
  then show ?thesis
    using q startSearch_match [OF a(1) a(2) a(3) _ a(4) a(5) a(6) q _ _ _ u, of bob]
    by auto
qed

text \<open>
  Claim C3, at a queue in which the caller's own entry is the earliest: the query reads
  one document, the caller's own, so bob's entry is not selected; the call takes the
  insert-and-wait branch, alice's entry is written again, bob stays queued, both pointers
  stay at searching and no partner is connected.
\<close>

theorem startSearch_own_entry_first:
  "queueHead aliceStale = [(''uidA'', \<lparr>userId_q = ''uidA'', timestamp_q = 100, profile_q = Some alice\<rparr>)]
   \<and> map_of (queue aliceStale) ''uidB'' \<noteq> None
   \<and> \<not> isl (startSearch searchEnv aliceState aliceStale)
   \<and> map fst (queue (snd (projr (startSearch searchEnv aliceState aliceStale)))) = [''uidA'', ''uidB'']
   \<and> map (status_u \<circ> snd) (users (snd (projr (startSearch searchEnv aliceState aliceStale))))
       = [searching, searching]
   \<and> connectedPartner (rooms (fst (projr (startSearch searchEnv aliceState aliceStale))) ONE_ON_ONE) = None
   \<and> isSearching (rooms (fst (projr (startSearch searchEnv aliceState aliceStale))) ONE_ON_ONE)"
  by (simp add: startSearch_def transactionBody_def queueHead_def Let_def
      searchEnv_def aliceState_def aliceStale_def initialRooms_def)

text \<open>
  Claim C2, at two searches that run at the same time while bob waits: alice and carol
  both read bob's entry, both commits are applied, and both end matched with bob, under
  two different session ids; bob's pointer names carol only. And when a commit is
  rejected, the caller's room already shows the partner (the \<^verbatim>\<open>setRooms\<close> call runs
  inside the transaction function) while the store holds no match: bob is still queued
  and both pointers are at searching.
\<close>

theorem concurrent_searches_match_same_partner:
  "concurrentSearches searchEnv ''uidA'' alice initialRooms
       searchEnv2 ''uidC'' carol initialRooms bobWaiting \<noteq> None
   \<and> connectedPartner (fst (the (concurrentSearches searchEnv ''uidA'' alice initialRooms
       searchEnv2 ''uidC'' carol initialRooms bobWaiting)) ONE_ON_ONE) = Some bob
   \<and> connectedPartner (fst (snd (the (concurrentSearches searchEnv ''uidA'' alice initialRooms
       searchEnv2 ''uidC'' carol initialRooms bobWaiting))) ONE_ON_ONE) = Some bob
   \<and> map_of (users (snd (snd (the (concurrentSearches searchEnv ''uidA'' alice initialRooms
       searchEnv2 ''uidC'' carol initialRooms bobWaiting))))) ''uidA''
       = Some \<lparr>status_u = matched, sessionId_u = Some (newSessionId searchEnv),
                profile_u = Some alice, partnerProfile_u = Some bob\<rparr>
   \<and> map_of (users (snd (snd (the (concurrentSearches searchEnv ''uidA'' alice initialRooms
       searchEnv2 ''uidC'' carol initialRooms bobWaiting))))) ''uidC''
       = Some \<lparr>status_u = matched, sessionId_u = Some (newSessionId searchEnv2),
                profile_u = Some carol, partnerProfile_u = Some bob\<rparr>
   \<and> map_of (users (snd (snd (the (concurrentSearches searchEnv ''uidA'' alice initialRooms
       searchEnv2 ''uidC'' carol initialRooms bobWaiting))))) ''uidB''
       = Some \<lparr>status_u = matched, sessionId_u = Some (newSessionId searchEnv2),
                profile_u = Some bob, partnerProfile_u = Some carol\<rparr>
   \<and> newSessionId searchEnv \<noteq> newSessionId searchEnv2
   \<and> \<not> isl (startSearch (searchEnv\<lparr>commitOk := False\<rparr>) aliceState bobWaiting)
   \<and> connectedPartner (rooms (fst (projr
        (startSearch (searchEnv\<lparr>commitOk := False\<rparr>) aliceState bobWaiting))) ONE_ON_ONE) = Some bob
   \<and> map_of (queue (snd (projr
        (startSearch (searchEnv\<lparr>commitOk := False\<rparr>) aliceState bobWaiting)))) ''uidB'' \<noteq> None
   \<and> map (status_u \<circ> snd) (users (snd (projr
        (startSearch (searchEnv\<lparr>commitOk := False\<rparr>) aliceState bobWaiting))))
       = [searching, searching]"
  by (simp add: concurrentSearches_def startSearch_def transactionBody_def queueHead_def Let_def
      newSessionId_def searchEnv_def searchEnv2_def aliceState_def bobWaiting_def)

section \<open>Message order\<close>










section \<open>Properties of demo mode\<close>

text \<open>
  Claim C8, as stated, in two runs without a store. In the first the user leaves the
  one-on-one room before the timer fires: selecting the one-on-one room in demo mode
  starts a search and arms the 1.5-second timer; selecting the world room then replaces
  it by the world-chat interval, and the room stays in search with no partner. In the
  second the user logs out and in again: handleLogout has cleared isDemoMode, so the
  search in the foreground one-on-one room arms nothing.
\<close>

theorem demo_search_left_room_counterexample:
  "\<not> isl (handleSelectRoom searchEnv ONE_ON_ONE aliceDemo emptyStore)
   \<and> isSearching (rooms (fst (projr (handleSelectRoom searchEnv ONE_ON_ONE aliceDemo emptyStore)))
        ONE_ON_ONE)
   \<and> demoEffect (fst (projr (handleSelectRoom searchEnv ONE_ON_ONE aliceDemo emptyStore)))
        = Some (SetTimeout ConnectDemoPartner 1500)
   \<and> demoEffect (fst (projr (handleSelectRoom searchEnv WORLD
        (fst (projr (handleSelectRoom searchEnv ONE_ON_ONE aliceDemo emptyStore))) emptyStore)))
        = Some (SetInterval WorldChatActivity 8000)
   \<and> isSearching (rooms (fst (projr (handleSelectRoom searchEnv WORLD
        (fst (projr (handleSelectRoom searchEnv ONE_ON_ONE aliceDemo emptyStore))) emptyStore)))
        ONE_ON_ONE)
   \<and> connectedPartner (rooms (fst (projr (handleSelectRoom searchEnv WORLD
        (fst (projr (handleSelectRoom searchEnv ONE_ON_ONE aliceDemo emptyStore))) emptyStore)))
        ONE_ON_ONE) = None
   \<and> \<not> isl (handleLogout True True aliceDemo emptyStore)
   \<and> \<not> isDemoMode (fst (projr (handleLogout True True aliceDemo emptyStore)))
   \<and> \<not> isl (handleSelectRoom searchEnv ONE_ON_ONE
          (handleLogin alice (fst (projr (handleLogout True True aliceDemo emptyStore)))) emptyStore)
   \<and> isSearching (rooms (fst (projr (handleSelectRoom searchEnv ONE_ON_ONE
          (handleLogin alice (fst (projr (handleLogout True True aliceDemo emptyStore)))) emptyStore)))
          ONE_ON_ONE)
   \<and> activeRoom (fst (projr (handleSelectRoom searchEnv ONE_ON_ONE
          (handleLogin alice (fst (projr (handleLogout True True aliceDemo emptyStore)))) emptyStore)))
          = ONE_ON_ONE
   \<and> demoEffect (fst (projr (handleSelectRoom searchEnv ONE_ON_ONE
          (handleLogin alice (fst (projr (handleLogout True True aliceDemo emptyStore)))) emptyStore)))
          = None"
  by (simp add: handleSelectRoom_def startSearch_def demoEffect_def handleLogout_def
      handleLogin_def resetRooms_def Let_def aliceDemo_def aliceState_def initialRooms_def)

text \<open>
  Claim C8, amended. While the isDemoMode flag is set, every search() of a logged-in user
  returns at once with the room in search; if the one-on-one room is the foreground room
  and no partner is connected, the simulation effect arms a timer of 1500 ms, and
  otherwise the world-chat interval instead. When the timer fires, the room gets the
  synthesized partner, the sessionId demo-session, exactly two seed messages, and
  isSearching is cleared.
\<close>

theorem demo_search_connects:
  assumes "isDemoMode s" "user s = Some u"
  shows "(\<exists>s1. startSearch env s st = Inr (s1, st)
       \<and> (activeRoom s = ONE_ON_ONE \<and> connectedPartner (rooms s ONE_ON_ONE) = None
            \<longrightarrow> demoEffect s1 = Some (SetTimeout ConnectDemoPartner 1500))
       \<and> (activeRoom s \<noteq> ONE_ON_ONE \<or> connectedPartner (rooms s ONE_ON_ONE) \<noteq> None
            \<longrightarrow> demoEffect s1 = Some (SetInterval WorldChatActivity 8000))
       \<and> connectedPartner (rooms (connectDemoPartner t1 t2 t3 t4 s1) ONE_ON_ONE) = Some demoPartner
       \<and> sessionId (rooms (connectDemoPartner t1 t2 t3 t4 s1) ONE_ON_ONE) = Some ''demo-session''
       \<and> length (messages (rooms (connectDemoPartner t1 t2 t3 t4 s1) ONE_ON_ONE)) = 2
       \<and> map sender (messages (rooms (connectDemoPartner t1 t2 t3 t4 s1) ONE_ON_ONE))
            = [''System'', ''Plyxor Bot'']
       \<and> \<not> isSearching (rooms (connectDemoPartner t1 t2 t3 t4 s1) ONE_ON_ONE))"
  using assms
  by (auto simp: startSearch_def demoEffect_def connectDemoPartner_def Let_def)

theorem demo_search_connects_witness:
  "isDemoMode (aliceDemo\<lparr>activeRoom := ONE_ON_ONE\<rparr>)
   \<and> user (aliceDemo\<lparr>activeRoom := ONE_ON_ONE\<rparr>) = Some alice
   \<and> (\<exists>s1. startSearch searchEnv (aliceDemo\<lparr>activeRoom := ONE_ON_ONE\<rparr>) emptyStore
              = Inr (s1, emptyStore)
         \<and> demoEffect s1 = Some (SetTimeout ConnectDemoPartner 1500)
         \<and> connectedPartner (rooms (connectDemoPartner 7 7 7 8 s1) ONE_ON_ONE) = Some demoPartner
         \<and> length (messages (rooms (connectDemoPartner 7 7 7 8 s1) ONE_ON_ONE)) = 2
         \<and> \<not> isSearching (rooms (connectDemoPartner 7 7 7 8 s1) ONE_ON_ONE))"
proof -
  let ?s = "aliceDemo\<lparr>activeRoom := ONE_ON_ONE\<rparr>"
  have h: "isDemoMode ?s" "user ?s = Some alice"
    by (simp_all add: aliceDemo_def aliceState_def)
  have g: "activeRoom ?s = ONE_ON_ONE \<and> connectedPartner (rooms ?s ONE_ON_ONE) = None"
    by (simp add: aliceDemo_def aliceState_def initialRooms_def)
  from demo_search_connects [OF h, of searchEnv emptyStore 7 7 7 8] g h
  show ?thesis by blast
qed

section \<open>Properties of translation\<close>

text \<open>
  Claim C9. For every text and target language translateMessage resolves to a string and
  never rejects; it resolves to the original text when the external call rejects or
  yields no text or an empty text, and to the translation otherwise.
\<close>

theorem translateMessage_falls_back:
  "(\<exists>r. translateMessage generateContent msgText targetLanguage = Inr r)
   \<and> (generateContent ''gemini-2.5-flash'' (translationPrompt msgText targetLanguage) = Rejects
        \<longrightarrow> translateMessage generateContent msgText targetLanguage = Inr msgText)
   \<and> (\<forall>response. generateContent ''gemini-2.5-flash'' (translationPrompt msgText targetLanguage)
          = Resolves response \<and> text_g response \<in> {None, Some []}
        \<longrightarrow> translateMessage generateContent msgText targetLanguage = Inr msgText)
   \<and> (\<forall>response t. generateContent ''gemini-2.5-flash'' (translationPrompt msgText targetLanguage)
          = Resolves response \<and> text_g response = Some t \<and> t \<noteq> []
        \<longrightarrow> translateMessage generateContent msgText targetLanguage = Inr t)"
  by (auto simp: translateMessage_def Let_def split: awaited.splits option.splits)

theorem translateMessage_falls_back_witness:
  "translateMessage (\<lambda>model contents. Rejects) ''hola'' ''English'' = Inr ''hola''
   \<and> translateMessage (\<lambda>model contents. Resolves \<lparr>text_g = Some []\<rparr>) ''hola'' ''English''
       = Inr ''hola''
   \<and> translateMessage (\<lambda>model contents. Resolves \<lparr>text_g = Some ''hello''\<rparr>) ''hola'' ''English''
       = Inr ''hello''"
proof -
  have a: "translateMessage (\<lambda>model contents. Rejects) ''hola'' ''English'' = Inr ''hola''"
    using translateMessage_falls_back [of "\<lambda>model contents. Rejects" "''hola''" "''English''"]
    by simp
  have b: "translateMessage (\<lambda>model contents. Resolves \<lparr>text_g = Some []\<rparr>) ''hola'' ''English''
       = Inr ''hola''"
    using translateMessage_falls_back
      [of "\<lambda>model contents. Resolves \<lparr>text_g = Some []\<rparr>" "''hola''" "''English''"]
    by simp
  have c: "translateMessage (\<lambda>model contents. Resolves \<lparr>text_g = Some ''hello''\<rparr>) ''hola'' ''English''
       = Inr ''hello''"
    using translateMessage_falls_back
      [of "\<lambda>model contents. Resolves \<lparr>text_g = Some ''hello''\<rparr>" "''hola''" "''English''"]
    by simp
  from a b c show ?thesis by blast
qed

end
